theory Spec2Isabelle
  imports Main "HOL-Library.Multiset"
begin

section \<open>The relational store\<close>

text \<open>
  The services of the repository (\<^verbatim>\<open>UsersService\<close>, \<^verbatim>\<open>PostsService\<close>,
  \<^verbatim>\<open>CategoriesService\<close>, \<^verbatim>\<open>CommentsService\<close>) are thin layers over the Prisma
  client. A table is the list of its rows in insertion order; timestamps are integers
  (milliseconds); an optional column is an \<open>option\<close>. Field names carry the model's
  name as a prefix (\<open>user_email\<close> is \<^verbatim>\<open>User.email\<close>), since the six models share
  field names.
\<close>

record User =
  user_id :: int
  user_email :: string
  user_name :: "string option"
  user_createdAt :: int
  user_updatedAt :: int

record Profile =
  profile_id :: int
  profile_bio :: "string option"
  profile_avatar :: "string option"
  profile_website :: "string option"
  profile_userId :: int

record Post =
  post_id :: int
  post_title :: string
  post_content :: "string option"
  post_published :: bool
  post_authorId :: int
  post_createdAt :: int
  post_updatedAt :: int

record Category =
  category_id :: int
  category_name :: string
  category_slug :: string

record PostCategory =
  pc_id :: int
  pc_postId :: int
  pc_categoryId :: int
  pc_createdAt :: int

record Comment =
  comment_id :: int
  comment_content :: string
  comment_postId :: int
  comment_authorId :: int
  comment_createdAt :: int
  comment_updatedAt :: int

text \<open>
  The state of the database: the six tables and the autoincrement sequences of the
  tables the modelled operations insert into, each holding the id its next row gets. The
  bulk insert of join rows draws a value for every row it proposes, inserted or not; a
  value that a failed insert of a single row has drawn is not tracked. Every sequence is
  taken to have values left.
\<close>

record db =
  users :: "User list"
  profiles :: "Profile list"
  posts :: "Post list"
  categories :: "Category list"
  postCategories :: "PostCategory list"
  comments :: "Comment list"
  user_seq :: int
  profile_seq :: int
  category_seq :: int
  postCategory_seq :: int
  comment_seq :: int

text \<open>
  What a call can throw. \<open>NotFoundException entity key\<close> is NestJS's exception with the
  message \<^verbatim>\<open><entity> with ID <id> not found\<close> (or \<^verbatim>\<open>with slug '<slug>'\<close>);
  \<open>PrismaClientKnownRequestError code\<close> is the error the Prisma client throws, read by
  the services through \<^verbatim>\<open>error.code\<close>: \<^verbatim>\<open>P2002\<close> unique constraint failed,
  \<^verbatim>\<open>P2003\<close> foreign key constraint failed, \<^verbatim>\<open>P2020\<close> value out of range for the
  column, \<^verbatim>\<open>P2025\<close> record to update or delete not found, \<^verbatim>\<open>P2033\<close> number that
  does not fit 64 bits.
\<close>

datatype lookup = ID int | Slug string

datatype exn =
  NotFoundException string lookup
| ConflictException string
| PrismaClientKnownRequestError string

type_synonym 'a outcome = "(exn + 'a) \<times> db"

section \<open>The Prisma client\<close>

text \<open>
  \<^verbatim>\<open>findMany\<close>: the rows that match, each once, in an order that only \<^verbatim>\<open>orderBy\<close>
  constrains. The engine chooses the order of the rows the ordering leaves tied (all of
  them when the query has no \<^verbatim>\<open>orderBy\<close>), so a query with a list in its result is a
  relation between the store and the answer.
\<close>

definition findMany_returns :: "('a \<Rightarrow> 'a \<Rightarrow> bool) \<Rightarrow> 'a list \<Rightarrow> 'a list \<Rightarrow> bool" where
  "findMany_returns ord matching res \<longleftrightarrow> mset res = mset matching \<and> sorted_wrt ord res"

definition unordered :: "'a \<Rightarrow> 'a \<Rightarrow> bool" where
  "unordered a b \<longleftrightarrow> True"

text \<open>\<^verbatim>\<open>orderBy: { createdAt: 'desc' }\<close> on comments.\<close>

definition createdAt_desc :: "Comment \<Rightarrow> Comment \<Rightarrow> bool" where
  "createdAt_desc a b \<longleftrightarrow> comment_createdAt b \<le> comment_createdAt a"

text \<open>
  The numbers of a query. An id column and a foreign key column are 32-bit integers
  (\<^verbatim>\<open>Int\<close>), and the arguments of a query are JavaScript numbers, here the integers
  among them (what \<^verbatim>\<open>ParseIntPipe\<close> and \<^verbatim>\<open>parseInt\<close> pass on). The client refuses a
  number that does not fit 64 bits with \<^verbatim>\<open>P2033\<close>, and a value for an \<^verbatim>\<open>Int\<close> column
  that does not fit 32 bits with \<^verbatim>\<open>P2020\<close>.
\<close>

definition int32 :: "int \<Rightarrow> bool" where
  "int32 i \<longleftrightarrow> - 2147483648 \<le> i \<and> i \<le> 2147483647"

definition int64 :: "int \<Rightarrow> bool" where
  "int64 i \<longleftrightarrow> - 9223372036854775808 \<le> i \<and> i \<le> 9223372036854775807"

definition range_error :: "int \<Rightarrow> exn option" where
  "range_error i =
     (if int32 i then None
      else if int64 i then Some (PrismaClientKnownRequestError ''P2020'')
      else Some (PrismaClientKnownRequestError ''P2033''))"

text \<open>
  \<^verbatim>\<open>take\<close>: a count from the start of the list when it is not negative, from its end
  when it is negative; refused when it does not fit 64 bits.
\<close>

definition prisma_take :: "int \<Rightarrow> 'a list \<Rightarrow> exn + 'a list" where
  "prisma_take n xs =
     (if \<not> int64 n then Inl (PrismaClientKnownRequestError ''P2033'')
      else if 0 \<le> n then Inr (take (nat n) xs)
      else Inr (drop (length xs - nat (- n)) xs))"

text \<open>An update applies a function to the row its unique key selects.\<close>

definition update_where :: "('a \<Rightarrow> bool) \<Rightarrow> ('a \<Rightarrow> 'a) \<Rightarrow> 'a list \<Rightarrow> 'a list" where
  "update_where P f rows = map (\<lambda>r. if P r then f r else r) rows"

subsection \<open>Rows by a unique key\<close>

text \<open>
  The row of a table with a given key, as a join on a foreign key and a constraint's
  test find it.
\<close>

definition user_row :: "db \<Rightarrow> int \<Rightarrow> User option" where
  "user_row d i = find (\<lambda>u. user_id u = i) (users d)"

definition profile_row :: "db \<Rightarrow> int \<Rightarrow> Profile option" where
  "profile_row d userId = find (\<lambda>p. profile_userId p = userId) (profiles d)"

definition post_row :: "db \<Rightarrow> int \<Rightarrow> Post option" where
  "post_row d i = find (\<lambda>p. post_id p = i) (posts d)"

definition category_row :: "db \<Rightarrow> int \<Rightarrow> Category option" where
  "category_row d i = find (\<lambda>c. category_id c = i) (categories d)"

definition comment_row :: "db \<Rightarrow> int \<Rightarrow> Comment option" where
  "comment_row d i = find (\<lambda>c. comment_id c = i) (comments d)"

subsection \<open>Lookups by a unique key\<close>

text \<open>
  \<^verbatim>\<open>where: { id }\<close> with a number of the caller: the row with the id; with no such row,
  null for an id that fits the column and the client's range error for one that does not.
  A table holds no id that does not fit its column, so the range is tested where no row
  was found. The lookups by a text key have no range to test.
\<close>

definition where_id :: "int \<Rightarrow> 'a option \<Rightarrow> exn + 'a option" where
  "where_id i found =
     (case found of
        Some r \<Rightarrow> Inr (Some r)
      | None \<Rightarrow> (case range_error i of Some e \<Rightarrow> Inl e | None \<Rightarrow> Inr None))"

definition user_findUnique :: "db \<Rightarrow> int \<Rightarrow> exn + User option" where
  "user_findUnique d i = where_id i (user_row d i)"

definition user_findUnique_email :: "db \<Rightarrow> string \<Rightarrow> User option" where
  "user_findUnique_email d e = find (\<lambda>u. user_email u = e) (users d)"

definition profile_findUnique_userId :: "db \<Rightarrow> int \<Rightarrow> exn + Profile option" where
  "profile_findUnique_userId d userId = where_id userId (profile_row d userId)"

definition post_findUnique :: "db \<Rightarrow> int \<Rightarrow> exn + Post option" where
  "post_findUnique d i = where_id i (post_row d i)"

definition category_findUnique :: "db \<Rightarrow> int \<Rightarrow> exn + Category option" where
  "category_findUnique d i = where_id i (category_row d i)"

definition category_findUnique_slug :: "db \<Rightarrow> string \<Rightarrow> Category option" where
  "category_findUnique_slug d s = find (\<lambda>c. category_slug c = s) (categories d)"

definition comment_findUnique :: "db \<Rightarrow> int \<Rightarrow> exn + Comment option" where
  "comment_findUnique d i = where_id i (comment_row d i)"

subsection \<open>Writes on users and profiles\<close>

text \<open>
  Modelled from the spec: \<^verbatim>\<open>prisma/schema.prisma\<close> is not among the sources; its
  constraints are the data model's (section 3): \<^verbatim>\<open>User.email\<close> unique,
  \<^verbatim>\<open>Profile.userId\<close> unique and a foreign key, \<^verbatim>\<open>(postId, categoryId)\<close> unique in the
  join table, every foreign key required, and deletes that cascade from a user to its
  profile, posts and comments, from a post to its comments and join rows, and from a
  category to its join rows.
\<close>

definition user_create :: "db \<Rightarrow> int \<Rightarrow> string \<Rightarrow> string option \<Rightarrow> User outcome" where
  "user_create d now email name =
     (if list_ex (\<lambda>u. user_email u = email) (users d)
      then (Inl (PrismaClientKnownRequestError ''P2002''), d)
      else
        (let u = \<lparr>user_id = user_seq d, user_email = email, user_name = name,
                  user_createdAt = now, user_updatedAt = now\<rparr>
         in (Inr u, d\<lparr>users := users d @ [u], user_seq := user_seq d + 1\<rparr>)))"

text \<open>
  An update or delete by id throws \<^verbatim>\<open>P2025\<close> where the lookup gives null. An update
  with no field given writes nothing, \<^verbatim>\<open>updatedAt\<close> included.
\<close>

definition user_update :: "db \<Rightarrow> int \<Rightarrow> int \<Rightarrow> string option \<Rightarrow> string option \<Rightarrow> User outcome" where
  "user_update d now i email name =
     (case user_findUnique d i of
        Inl e \<Rightarrow> (Inl e, d)
      | Inr None \<Rightarrow> (Inl (PrismaClientKnownRequestError ''P2025''), d)
      | Inr (Some u) \<Rightarrow>
          (if email = None \<and> name = None then (Inr u, d)
           else if (case email of None \<Rightarrow> False
               | Some e \<Rightarrow> list_ex (\<lambda>v. user_email v = e \<and> user_id v \<noteq> i) (users d))
           then (Inl (PrismaClientKnownRequestError ''P2002''), d)
           else
             (let u' = u\<lparr>user_email := (case email of None \<Rightarrow> user_email u | Some e \<Rightarrow> e),
                          user_name := (case name of None \<Rightarrow> user_name u | Some n \<Rightarrow> Some n),
                          user_updatedAt := now\<rparr>
              in (Inr u', d\<lparr>users := update_where (\<lambda>v. user_id v = i) (\<lambda>v. u') (users d)\<rparr>))))"

text \<open>Deleting posts takes their join rows and comments with them.\<close>

definition delete_posts :: "(Post \<Rightarrow> bool) \<Rightarrow> db \<Rightarrow> db" where
  "delete_posts P d =
     (let gone = map post_id (filter P (posts d))
      in d\<lparr>posts := filter (\<lambda>p. \<not> P p) (posts d),
            postCategories := filter (\<lambda>j. pc_postId j \<notin> set gone) (postCategories d),
            comments := filter (\<lambda>c. comment_postId c \<notin> set gone) (comments d)\<rparr>)"

definition user_delete :: "db \<Rightarrow> int \<Rightarrow> User outcome" where
  "user_delete d i =
     (case user_findUnique d i of
        Inl e \<Rightarrow> (Inl e, d)
      | Inr None \<Rightarrow> (Inl (PrismaClientKnownRequestError ''P2025''), d)
      | Inr (Some u) \<Rightarrow>
          (let d1 = delete_posts (\<lambda>p. post_authorId p = i) d
           in (Inr u, d1\<lparr>users := filter (\<lambda>v. user_id v \<noteq> i) (users d1),
                          profiles := filter (\<lambda>p. profile_userId p \<noteq> i) (profiles d1),
                          comments := filter (\<lambda>c. comment_authorId c \<noteq> i) (comments d1)\<rparr>)))"

text \<open>
  The profile fields of a request body: a field left out is \<open>None\<close>. An update leaves
  the column of a field left out as it is; a create stores null there.
\<close>

record ProfileData =
  data_bio :: "string option"
  data_avatar :: "string option"
  data_website :: "string option"

definition apply_ProfileData :: "ProfileData \<Rightarrow> Profile \<Rightarrow> Profile" where
  "apply_ProfileData data p =
     p\<lparr>profile_bio := (case data_bio data of None \<Rightarrow> profile_bio p | Some b \<Rightarrow> Some b),
       profile_avatar := (case data_avatar data of None \<Rightarrow> profile_avatar p | Some a \<Rightarrow> Some a),
       profile_website := (case data_website data of None \<Rightarrow> profile_website p | Some w \<Rightarrow> Some w)\<rparr>"



subsection \<open>Writes on posts, join rows and comments\<close>

definition post_update ::
  "db \<Rightarrow> int \<Rightarrow> int \<Rightarrow> string option \<Rightarrow> string option \<Rightarrow> bool option \<Rightarrow> Post outcome" where
  "post_update d now i title content published =
     (case post_findUnique d i of
        Inl e \<Rightarrow> (Inl e, d)
      | Inr None \<Rightarrow> (Inl (PrismaClientKnownRequestError ''P2025''), d)
      | Inr (Some p) \<Rightarrow>
          (if title = None \<and> content = None \<and> published = None then (Inr p, d)
           else
           let p' = p\<lparr>post_title := (case title of None \<Rightarrow> post_title p | Some t \<Rightarrow> t),
                       post_content := (case content of None \<Rightarrow> post_content p | Some c \<Rightarrow> Some c),
                       post_published := (case published of None \<Rightarrow> post_published p | Some b \<Rightarrow> b),
                       post_updatedAt := now\<rparr>
           in (Inr p', d\<lparr>posts := update_where (\<lambda>q. post_id q = i) (\<lambda>q. p') (posts d)\<rparr>)))"

definition post_delete :: "db \<Rightarrow> int \<Rightarrow> Post outcome" where
  "post_delete d i =
     (case post_findUnique d i of
        Inl e \<Rightarrow> (Inl e, d)
      | Inr None \<Rightarrow> (Inl (PrismaClientKnownRequestError ''P2025''), d)
      | Inr (Some p) \<Rightarrow> (Inr p, delete_posts (\<lambda>q. post_id q = i) d))"


definition attached :: "int \<Rightarrow> int \<Rightarrow> PostCategory list \<Rightarrow> bool" where
  "attached p c rows = list_ex (\<lambda>j. pc_postId j = p \<and> pc_categoryId j = c) rows"

fun insert_skipDuplicates ::
  "int \<Rightarrow> (int \<times> int) list \<Rightarrow> PostCategory list \<Rightarrow> int \<Rightarrow> PostCategory list \<times> int" where
  "insert_skipDuplicates now [] rows s = (rows, s)"
| "insert_skipDuplicates now ((p, c) # data) rows s =
     (if attached p c rows then insert_skipDuplicates now data rows (s + 1)
      else insert_skipDuplicates now data
             (rows @ [\<lparr>pc_id = s, pc_postId = p, pc_categoryId = c, pc_createdAt = now\<rparr>])
             (s + 1))"

text \<open>
  The statement is refused, before it runs, when a value does not fit its column (the
  error of the first such value). It is atomic: a row whose post or category does not
  exist fails all of it with the foreign key error, tested when every row has been
  proposed, so that no row stays and the sequence keeps the values drawn. The result is
  \<^verbatim>\<open>{ count }\<close>, the number of rows created.
\<close>

definition postCategory_createMany_skipDuplicates ::
  "db \<Rightarrow> int \<Rightarrow> (int \<times> int) list \<Rightarrow> nat outcome" where
  "postCategory_createMany_skipDuplicates d now data =
     (case List.map_filter range_error (concat (map (\<lambda>(p, c). [p, c]) data)) of
        e # es \<Rightarrow> (Inl e, d)
      | [] \<Rightarrow>
          (if list_all (\<lambda>(p, c). post_row d p \<noteq> None \<and> category_row d c \<noteq> None) data
           then
             (case insert_skipDuplicates now data (postCategories d) (postCategory_seq d) of
                (rows, s) \<Rightarrow>
                  (Inr (length rows - length (postCategories d)),
                   d\<lparr>postCategories := rows, postCategory_seq := s\<rparr>))
           else
             (Inl (PrismaClientKnownRequestError ''P2003''),
              d\<lparr>postCategory_seq := postCategory_seq d + int (length data)\<rparr>)))"


definition comment_update :: "db \<Rightarrow> int \<Rightarrow> int \<Rightarrow> string \<Rightarrow> Comment outcome" where
  "comment_update d now i content =
     (case comment_findUnique d i of
        Inl e \<Rightarrow> (Inl e, d)
      | Inr None \<Rightarrow> (Inl (PrismaClientKnownRequestError ''P2025''), d)
      | Inr (Some c) \<Rightarrow>
          (let c' = c\<lparr>comment_content := content, comment_updatedAt := now\<rparr>
           in (Inr c', d\<lparr>comments := update_where (\<lambda>q. comment_id q = i) (\<lambda>q. c') (comments d)\<rparr>)))"

definition comment_delete :: "db \<Rightarrow> int \<Rightarrow> Comment outcome" where
  "comment_delete d i =
     (case comment_findUnique d i of
        Inl e \<Rightarrow> (Inl e, d)
      | Inr None \<Rightarrow> (Inl (PrismaClientKnownRequestError ''P2025''), d)
      | Inr (Some c) \<Rightarrow> (Inr c, d\<lparr>comments := filter (\<lambda>q. comment_id q \<noteq> i) (comments d)\<rparr>))"

subsection \<open>Writes on categories\<close>

definition category_create :: "db \<Rightarrow> string \<Rightarrow> string \<Rightarrow> Category outcome" where
  "category_create d name slug =
     (if list_ex (\<lambda>q. category_name q = name \<or> category_slug q = slug) (categories d)
      then (Inl (PrismaClientKnownRequestError ''P2002''), d)
      else
        (let c = \<lparr>category_id = category_seq d, category_name = name, category_slug = slug\<rparr>
         in (Inr c, d\<lparr>categories := categories d @ [c], category_seq := category_seq d + 1\<rparr>)))"

definition category_update :: "db \<Rightarrow> int \<Rightarrow> string option \<Rightarrow> string option \<Rightarrow> Category outcome" where
  "category_update d i name slug =
     (case category_findUnique d i of
        Inl e \<Rightarrow> (Inl e, d)
      | Inr None \<Rightarrow> (Inl (PrismaClientKnownRequestError ''P2025''), d)
      | Inr (Some c) \<Rightarrow>
          (if (case name of None \<Rightarrow> False
               | Some n \<Rightarrow> list_ex (\<lambda>q. category_name q = n \<and> category_id q \<noteq> i) (categories d))
              \<or> (case slug of None \<Rightarrow> False
                  | Some s \<Rightarrow> list_ex (\<lambda>q. category_slug q = s \<and> category_id q \<noteq> i) (categories d))
           then (Inl (PrismaClientKnownRequestError ''P2002''), d)
           else
             (let c' = c\<lparr>category_name := (case name of None \<Rightarrow> category_name c | Some n \<Rightarrow> n),
                          category_slug := (case slug of None \<Rightarrow> category_slug c | Some s \<Rightarrow> s)\<rparr>
              in (Inr c',
                  d\<lparr>categories := update_where (\<lambda>q. category_id q = i) (\<lambda>q. c') (categories d)\<rparr>))))"

definition category_delete :: "db \<Rightarrow> int \<Rightarrow> Category outcome" where
  "category_delete d i =
     (case category_findUnique d i of
        Inl e \<Rightarrow> (Inl e, d)
      | Inr None \<Rightarrow> (Inl (PrismaClientKnownRequestError ''P2025''), d)
      | Inr (Some c) \<Rightarrow>
          (Inr c, d\<lparr>categories := filter (\<lambda>q. category_id q \<noteq> i) (categories d),
                     postCategories := filter (\<lambda>j. pc_categoryId j \<noteq> i) (postCategories d)\<rparr>))"

subsection \<open>Included relations\<close>

text \<open>
  A required relation (\<^verbatim>\<open>author\<close>, \<^verbatim>\<open>category\<close>, \<^verbatim>\<open>post\<close>) is looked up by its foreign
  key; it is \<open>None\<close> only in a store that breaks the foreign key.
\<close>

type_synonym JoinWithCategory = "PostCategory \<times> Category option"

definition include_categories :: "db \<Rightarrow> Post \<Rightarrow> JoinWithCategory list \<Rightarrow> bool" where
  "include_categories d p res \<longleftrightarrow>
     findMany_returns unordered
       (map (\<lambda>j. (j, category_row d (pc_categoryId j)))
          (filter (\<lambda>j. pc_postId j = post_id p) (postCategories d)))
       res"

definition with_profile :: "db \<Rightarrow> User \<Rightarrow> User \<times> Profile option" where
  "with_profile d u = (u, profile_row d (user_id u))"

definition with_author :: "db \<Rightarrow> Post \<Rightarrow> Post \<times> User option" where
  "with_author d p = (p, user_row d (post_authorId p))"

section \<open>UsersService\<close>

text \<open>\<^verbatim>\<open>create(data)\<close>: the client's call, with nothing caught.\<close>

definition UsersService_create :: "db \<Rightarrow> int \<Rightarrow> string \<Rightarrow> string option \<Rightarrow> User outcome" where
  "UsersService_create d now email name = user_create d now email name"



text \<open>
  \<^verbatim>\<open>findByEmail(email)\<close> returns what \<^verbatim>\<open>findUnique\<close> gives, the user with its profile
  and posts or null (\<open>None\<close>); it has no check of the answer.
\<close>

definition UsersService_findByEmail ::
  "db \<Rightarrow> string \<Rightarrow> exn + (User \<times> Profile option \<times> Post list) option \<Rightarrow> bool" where
  "UsersService_findByEmail d email r \<longleftrightarrow>
     (case user_findUnique_email d email of
        None \<Rightarrow> r = Inr None
      | Some u \<Rightarrow>
          (case r of
             Inr (Some (u', prof, ps)) \<Rightarrow>
               u' = u \<and> prof = profile_row d (user_id u) \<and>
               findMany_returns unordered (filter (\<lambda>p. post_authorId p = user_id u) (posts d)) ps
           | _ \<Rightarrow> False))"

text \<open>\<^verbatim>\<open>update(id, data)\<close> and \<^verbatim>\<open>remove(id)\<close>: the client's calls, with nothing caught.\<close>

definition UsersService_update ::
  "db \<Rightarrow> int \<Rightarrow> int \<Rightarrow> string option \<Rightarrow> string option \<Rightarrow> (User \<times> Profile option) outcome" where
  "UsersService_update d now i email name =
     (case user_update d now i email name of
        (Inl e, d') \<Rightarrow> (Inl e, d')
      | (Inr u, d') \<Rightarrow> (Inr (with_profile d' u), d'))"

definition UsersService_remove :: "db \<Rightarrow> int \<Rightarrow> User outcome" where
  "UsersService_remove d i = user_delete d i"


section \<open>PostsService\<close>

text \<open>
  \<^verbatim>\<open>findOne(id)\<close>: the post with its author (and the author's profile), its join rows
  with their categories, and its comments with their authors, the comments under
  \<^verbatim>\<open>orderBy: { createdAt: 'desc' }\<close>.
\<close>

record PostDetail =
  pd_post :: Post
  pd_author :: "(User \<times> Profile option) option"
  pd_categories :: "JoinWithCategory list"
  pd_comments :: "(Comment \<times> User option) list"

definition PostsService_findOne :: "db \<Rightarrow> int \<Rightarrow> exn + PostDetail \<Rightarrow> bool" where
  "PostsService_findOne d i r \<longleftrightarrow>
     (case post_findUnique d i of
        Inl e \<Rightarrow> r = Inl e
      | Inr None \<Rightarrow> r = Inl (NotFoundException ''Post'' (ID i))
      | Inr (Some p) \<Rightarrow>
          (case r of
             Inl e \<Rightarrow> False
           | Inr v \<Rightarrow>
               pd_post v = p \<and>
               pd_author v = map_option (with_profile d) (user_row d (post_authorId p)) \<and>
               include_categories d p (pd_categories v) \<and>
               findMany_returns (\<lambda>a b. createdAt_desc (fst a) (fst b))
                 (map (\<lambda>c. (c, user_row d (comment_authorId c)))
                    (filter (\<lambda>c. comment_postId c = i) (comments d)))
                 (pd_comments v)))"

text \<open>\<^verbatim>\<open>update(id, data)\<close> and \<^verbatim>\<open>remove(id)\<close>: the client's calls, with nothing caught.\<close>

definition PostsService_update ::
  "db \<Rightarrow> int \<Rightarrow> int \<Rightarrow> string option \<Rightarrow> string option \<Rightarrow> bool option \<Rightarrow>
   ((Post \<times> User option) \<times> JoinWithCategory list) outcome \<Rightarrow> bool" where
  "PostsService_update d now i title content published out \<longleftrightarrow>
     (case post_update d now i title content published of
        (Inl e, d') \<Rightarrow> out = (Inl e, d')
      | (Inr p, d') \<Rightarrow>
          (case out of
             (Inr (pa, cats), d'') \<Rightarrow> d'' = d' \<and> pa = with_author d' p \<and> include_categories d' p cats
           | (Inl e, d'') \<Rightarrow> False))"

definition PostsService_remove :: "db \<Rightarrow> int \<Rightarrow> Post outcome" where
  "PostsService_remove d i = post_delete d i"





section \<open>CategoriesService\<close>

text \<open>\<^verbatim>\<open>error.code\<close>: the code of a client error, undefined for any other exception.\<close>

fun error_code :: "exn \<Rightarrow> string option" where
  "error_code (PrismaClientKnownRequestError c) = Some c"
| "error_code (NotFoundException entity k) = None"
| "error_code (ConflictException m) = None"

text \<open>
  \<^verbatim>\<open>create\<close>, \<^verbatim>\<open>update\<close> and \<^verbatim>\<open>remove\<close> wrap the client's call in \<^verbatim>\<open>try\<close>/\<^verbatim>\<open>catch\<close>:
  the handler tests the code and throws the domain exception, or throws the error again.
\<close>

definition CategoriesService_create :: "db \<Rightarrow> string \<Rightarrow> string \<Rightarrow> Category outcome" where
  "CategoriesService_create d name slug =
     (case category_create d name slug of
        (Inr c, d') \<Rightarrow> (Inr c, d')
      | (Inl error, d') \<Rightarrow>
          (if error_code error = Some ''P2002''
           then (Inl (ConflictException ''Category with this name or slug already exists''), d')
           else (Inl error, d')))"

definition CategoriesService_update ::
  "db \<Rightarrow> int \<Rightarrow> string option \<Rightarrow> string option \<Rightarrow> Category outcome" where
  "CategoriesService_update d i name slug =
     (case category_update d i name slug of
        (Inr c, d') \<Rightarrow> (Inr c, d')
      | (Inl error, d') \<Rightarrow>
          (if error_code error = Some ''P2002''
           then (Inl (ConflictException ''Category with this name or slug already exists''), d')
           else if error_code error = Some ''P2025''
           then (Inl (NotFoundException ''Category'' (ID i)), d')
           else (Inl error, d')))"

definition CategoriesService_remove :: "db \<Rightarrow> int \<Rightarrow> Category outcome" where
  "CategoriesService_remove d i =
     (case category_delete d i of
        (Inr c, d') \<Rightarrow> (Inr c, d')
      | (Inl error, d') \<Rightarrow>
          (if error_code error = Some ''P2025''
           then (Inl (NotFoundException ''Category'' (ID i)), d')
           else (Inl error, d')))"


definition CategoriesService_findBySlug ::
  "db \<Rightarrow> string \<Rightarrow> exn + Category \<times> (PostCategory \<times> (Post \<times> User option) option) list \<Rightarrow> bool" where
  "CategoriesService_findBySlug d slug r \<longleftrightarrow>
     (case category_findUnique_slug d slug of
        None \<Rightarrow> r = Inl (NotFoundException ''Category'' (Slug slug))
      | Some c \<Rightarrow>
          (case r of
             Inl e \<Rightarrow> False
           | Inr (c', joins) \<Rightarrow>
               c' = c \<and>
               findMany_returns unordered
                 (map (\<lambda>j. (j, map_option (with_author d) (post_row d (pc_postId j))))
                    (filter (\<lambda>j. pc_categoryId j = category_id c) (postCategories d)))
                 joins))"

text \<open>
  \<^verbatim>\<open>getPopularCategories(limit = 10)\<close>: every category with \<^verbatim>\<open>_count.posts\<close>, the number
  of its join rows, under \<^verbatim>\<open>orderBy: { posts: { _count: 'desc' } }\<close> and \<^verbatim>\<open>take: limit\<close>.
  The argument is \<open>None\<close> when the caller passes \<^verbatim>\<open>undefined\<close>, which the default
  replaces. The client's refusal of the limit is not caught.
\<close>

definition posts_count :: "db \<Rightarrow> Category \<Rightarrow> nat" where
  "posts_count d c = length (filter (\<lambda>j. pc_categoryId j = category_id c) (postCategories d))"

definition count_desc :: "Category \<times> nat \<Rightarrow> Category \<times> nat \<Rightarrow> bool" where
  "count_desc a b \<longleftrightarrow> snd b \<le> snd a"

inductive CategoriesService_getPopularCategories ::
  "db \<Rightarrow> int option \<Rightarrow> exn + (Category \<times> nat) list \<Rightarrow> bool" where
  getPopularCategories_returns:
    "findMany_returns count_desc (map (\<lambda>c. (c, posts_count d c)) (categories d)) ordered \<Longrightarrow>
     CategoriesService_getPopularCategories d limit
       (prisma_take (case limit of None \<Rightarrow> 10 | Some n \<Rightarrow> n) ordered)"

text \<open>
  The tie order the specification states for \<^verbatim>\<open>getPopularCategories\<close> (its section 8),
  which no part of the query asks for: of two categories with equal counts, the one
  inserted earlier, that is the one earlier in the table, comes first.
\<close>

definition inserted_before :: "db \<Rightarrow> Category \<Rightarrow> Category \<Rightarrow> bool" where
  "inserted_before d a b \<longleftrightarrow> a \<in> set (takeWhile (\<lambda>c. c \<noteq> b) (categories d))"

definition ties_in_insertion_order :: "db \<Rightarrow> (Category \<times> nat) list \<Rightarrow> bool" where
  "ties_in_insertion_order d res \<longleftrightarrow>
     sorted_wrt (\<lambda>a b. snd a \<noteq> snd b \<or> inserted_before d (fst a) (fst b)) res"

section \<open>CommentsService\<close>


text \<open>\<^verbatim>\<open>update\<close> and \<^verbatim>\<open>remove\<close> catch the client's error and test it for \<^verbatim>\<open>P2025\<close>.\<close>

definition CommentsService_update ::
  "db \<Rightarrow> int \<Rightarrow> int \<Rightarrow> string \<Rightarrow> (Comment \<times> User option \<times> Post option) outcome" where
  "CommentsService_update d now i content =
     (case comment_update d now i content of
        (Inr c, d') \<Rightarrow>
          (Inr (c, user_row d' (comment_authorId c), post_row d' (comment_postId c)), d')
      | (Inl error, d') \<Rightarrow>
          (if error_code error = Some ''P2025''
           then (Inl (NotFoundException ''Comment'' (ID i)), d')
           else (Inl error, d')))"

definition CommentsService_remove :: "db \<Rightarrow> int \<Rightarrow> Comment outcome" where
  "CommentsService_remove d i =
     (case comment_delete d i of
        (Inr c, d') \<Rightarrow> (Inr c, d')
      | (Inl error, d') \<Rightarrow>
          (if error_code error = Some ''P2025''
           then (Inl (NotFoundException ''Comment'' (ID i)), d')
           else (Inl error, d')))"



section \<open>An example store\<close>

text \<open>
  Two users, one of them with a profile; two posts by the first user; two categories,
  each attached to one post; two comments on the first post.
\<close>

definition alice :: User where
  "alice = \<lparr>user_id = 1, user_email = ''alice@example.com'', user_name = Some ''Alice'',
            user_createdAt = 10, user_updatedAt = 10\<rparr>"

definition bob :: User where
  "bob = \<lparr>user_id = 2, user_email = ''bob@example.com'', user_name = None,
          user_createdAt = 20, user_updatedAt = 20\<rparr>"

definition alice_profile :: Profile where
  "alice_profile = \<lparr>profile_id = 1, profile_bio = Some ''hello world!'', profile_avatar = None,
                    profile_website = None, profile_userId = 1\<rparr>"

definition first_post :: Post where
  "first_post = \<lparr>post_id = 1, post_title = ''First'', post_content = None,
                 post_published = True, post_authorId = 1, post_createdAt = 30,
                 post_updatedAt = 30\<rparr>"

definition second_post :: Post where
  "second_post = \<lparr>post_id = 2, post_title = ''Second'', post_content = Some ''text'',
                  post_published = False, post_authorId = 1, post_createdAt = 40,
                  post_updatedAt = 40\<rparr>"

definition tech :: Category where
  "tech = \<lparr>category_id = 1, category_name = ''Technology'', category_slug = ''technology''\<rparr>"

definition tutorial :: Category where
  "tutorial = \<lparr>category_id = 2, category_name = ''Tutorial'', category_slug = ''tutorial''\<rparr>"

definition first_tech :: PostCategory where
  "first_tech = \<lparr>pc_id = 1, pc_postId = 1, pc_categoryId = 1, pc_createdAt = 50\<rparr>"

definition second_tutorial :: PostCategory where
  "second_tutorial = \<lparr>pc_id = 2, pc_postId = 2, pc_categoryId = 2, pc_createdAt = 60\<rparr>"

definition older_comment :: Comment where
  "older_comment = \<lparr>comment_id = 1, comment_content = ''Great post!'', comment_postId = 1,
                    comment_authorId = 2, comment_createdAt = 70, comment_updatedAt = 70\<rparr>"

definition newer_comment :: Comment where
  "newer_comment = \<lparr>comment_id = 2, comment_content = ''Thanks'', comment_postId = 1,
                    comment_authorId = 1, comment_createdAt = 80, comment_updatedAt = 80\<rparr>"

definition blog :: db where
  "blog = \<lparr>users = [alice, bob], profiles = [alice_profile],
           posts = [first_post, second_post], categories = [tech, tutorial],
           postCategories = [first_tech, second_tutorial],
           comments = [older_comment, newer_comment],
           user_seq = 3, profile_seq = 2, category_seq = 3, postCategory_seq = 3,
           comment_seq = 3\<rparr>"

lemmas blog_rows =
  alice_def bob_def alice_profile_def first_post_def second_post_def tech_def tutorial_def
  first_tech_def second_tutorial_def older_comment_def newer_comment_def


text \<open>
  The store after \<^verbatim>\<open>addCategories(1, [1, 2])\<close> at time 90, and an answer of \<^verbatim>\<open>findOne\<close>
  for the first post there. The pair \<open>(1, 1)\<close> was attached and drew the value 3; the new
  row of the pair \<open>(1, 2)\<close> has the id 4.
\<close>

definition first_tutorial :: PostCategory where
  "first_tutorial = \<lparr>pc_id = 4, pc_postId = 1, pc_categoryId = 2, pc_createdAt = 90\<rparr>"

definition blog_tagged :: db where
  "blog_tagged = blog\<lparr>postCategories := [first_tech, second_tutorial, first_tutorial],
                       postCategory_seq := 5\<rparr>"


section \<open>Facts about the client\<close>

subsection \<open>Rows, keys and orders\<close>

lemma find_None_notin: "find (\<lambda>u. f u = i) xs = None \<longleftrightarrow> i \<notin> set (map f xs)"
  by (auto simp: find_None_iff)

lemma find_None_image: "find (\<lambda>u. f u = i) xs = None \<longleftrightarrow> i \<notin> f ` set xs"
  by (auto simp: find_None_iff)




lemma findMany_returns_desc_sort:
  fixes k :: "'a \<Rightarrow> 'b::linorder"
  shows "findMany_returns (\<lambda>a b. k b \<le> k a) xs (rev (sort_key k xs))"
proof -
  have "sorted (map k (sort_key k xs))" by (rule sorted_sort_key)
  then have "sorted_wrt (\<lambda>a b. k a \<le> k b) (sort_key k xs)" by (simp only: sorted_map)
  then have "sorted_wrt (\<lambda>a b. k b \<le> k a) (rev (sort_key k xs))"
    by (simp only: sorted_wrt_rev)
  then show ?thesis by (simp add: findMany_returns_def)
qed

subsection \<open>Numbers in and out of range\<close>

lemma range_error_int32: "int32 i \<Longrightarrow> range_error i = None"
  by (simp add: range_error_def)

lemma range_error_None: "range_error i = None \<longleftrightarrow> int32 i"
  by (simp add: range_error_def)

lemma range_error_code:
  "range_error i = Some e \<Longrightarrow> e = PrismaClientKnownRequestError ''P2020'' \<or>
     e = PrismaClientKnownRequestError ''P2033''"
  by (auto simp: range_error_def split: if_splits)

lemma int32_int64: "int32 i \<Longrightarrow> int64 i"
  by (simp add: int32_def int64_def)


lemma where_id_None: "int32 i \<Longrightarrow> where_id i None = Inr None"
  by (simp add: where_id_def range_error_int32)

lemma where_id_refused: "range_error i = Some e \<Longrightarrow> where_id i None = Inl e"
  by (simp add: where_id_def)

lemma where_id_Inr_Some: "where_id i found = Inr (Some r) \<longleftrightarrow> found = Some r"
  by (auto simp: where_id_def split: option.splits)

lemma where_id_Inr_None: "where_id i found = Inr None \<longleftrightarrow> found = None \<and> int32 i"
  by (auto simp: where_id_def range_error_def split: option.splits if_splits)

lemma where_id_Inl: "where_id i found = Inl e \<longleftrightarrow> found = None \<and> range_error i = Some e"
  by (auto simp: where_id_def split: option.splits)

lemmas findUnique_defs =
  user_findUnique_def profile_findUnique_userId_def post_findUnique_def
  category_findUnique_def comment_findUnique_def

lemmas row_defs =
  user_row_def profile_row_def post_row_def category_row_def comment_row_def

subsection \<open>The outcomes of findOne on posts\<close>




lemma PostsService_findOne_Inr:
  "PostsService_findOne d i (Inr v) \<Longrightarrow> post_row d i \<noteq> None"
  by (auto simp: PostsService_findOne_def post_findUnique_def where_id_def
      split: option.splits sum.splits)



subsection \<open>What the users and posts services let through\<close>

text \<open>
  Without a handler, the outcome of \<^verbatim>\<open>create\<close>, \<^verbatim>\<open>update\<close> and \<^verbatim>\<open>remove\<close> is the
  client's; \<^verbatim>\<open>findByEmail\<close> gives null for an email no user has. The categories and
  comments services turn \<^verbatim>\<open>P2025\<close> into the not-found exception.
\<close>

lemma UsersService_create_duplicate:
  "email \<in> set (map user_email (users d)) \<Longrightarrow>
   UsersService_create d now email name = (Inl (PrismaClientKnownRequestError ''P2002''), d)"
  by (auto simp: UsersService_create_def user_create_def list_ex_iff)

lemma UsersService_create_fresh:
  "email \<notin> set (map user_email (users d)) \<Longrightarrow>
   \<exists>u. UsersService_create d now email name =
         (Inr u, d\<lparr>users := users d @ [u], user_seq := user_seq d + 1\<rparr>) \<and>
       user_email u = email \<and> user_name u = name"
  by (auto simp: UsersService_create_def user_create_def list_ex_iff Let_def)

lemma UsersService_findByEmail_None:
  "email \<notin> set (map user_email (users d)) \<Longrightarrow>
   UsersService_findByEmail d email r \<longleftrightarrow> r = Inr None"
  by (simp add: UsersService_findByEmail_def user_findUnique_email_def find_None_image[symmetric])

lemma UsersService_update_remove_missing:
  assumes "i \<notin> set (map user_id (users d))" and "int32 i"
  shows "UsersService_update d now i email name = (Inl (PrismaClientKnownRequestError ''P2025''), d)"
    and "UsersService_remove d i = (Inl (PrismaClientKnownRequestError ''P2025''), d)"
proof -
  from assms(1) have "user_row d i = None"
    by (simp add: user_row_def find_None_notin)
  with assms(2) have "user_findUnique d i = Inr None"
    by (simp add: user_findUnique_def where_id_None)
  then show "UsersService_update d now i email name = (Inl (PrismaClientKnownRequestError ''P2025''), d)"
    and "UsersService_remove d i = (Inl (PrismaClientKnownRequestError ''P2025''), d)"
    by (simp_all add: UsersService_update_def user_update_def UsersService_remove_def
        user_delete_def)
qed

lemma PostsService_update_remove_missing:
  assumes "i \<notin> set (map post_id (posts d))" and "int32 i"
  shows "PostsService_update d now i title content published out \<longleftrightarrow>
           out = (Inl (PrismaClientKnownRequestError ''P2025''), d)"
    and "PostsService_remove d i = (Inl (PrismaClientKnownRequestError ''P2025''), d)"
proof -
  from assms(1) have "post_row d i = None"
    by (simp add: post_row_def find_None_notin)
  with assms(2) have "post_findUnique d i = Inr None"
    by (simp add: post_findUnique_def where_id_None)
  then show "PostsService_update d now i title content published out \<longleftrightarrow>
           out = (Inl (PrismaClientKnownRequestError ''P2025''), d)"
    and "PostsService_remove d i = (Inl (PrismaClientKnownRequestError ''P2025''), d)"
    by (simp_all add: PostsService_update_def post_update_def PostsService_remove_def
        post_delete_def)
qed

lemma CategoriesService_update_remove_missing:
  assumes "i \<notin> set (map category_id (categories d))" and "int32 i"
  shows "CategoriesService_update d i name slug = (Inl (NotFoundException ''Category'' (ID i)), d)"
    and "CategoriesService_remove d i = (Inl (NotFoundException ''Category'' (ID i)), d)"
proof -
  from assms(1) have "category_row d i = None"
    by (simp add: category_row_def find_None_notin)
  with assms(2) have "category_findUnique d i = Inr None"
    by (simp add: category_findUnique_def where_id_None)
  then show "CategoriesService_update d i name slug = (Inl (NotFoundException ''Category'' (ID i)), d)"
    and "CategoriesService_remove d i = (Inl (NotFoundException ''Category'' (ID i)), d)"
    by (simp_all add: CategoriesService_update_def category_update_def
        CategoriesService_remove_def category_delete_def)
qed

lemma CommentsService_update_remove_missing:
  assumes "i \<notin> set (map comment_id (comments d))" and "int32 i"
  shows "CommentsService_update d now i content = (Inl (NotFoundException ''Comment'' (ID i)), d)"
    and "CommentsService_remove d i = (Inl (NotFoundException ''Comment'' (ID i)), d)"
proof -
  from assms(1) have "comment_row d i = None"
    by (simp add: comment_row_def find_None_notin)
  with assms(2) have "comment_findUnique d i = Inr None"
    by (simp add: comment_findUnique_def where_id_None)
  then show "CommentsService_update d now i content = (Inl (NotFoundException ''Comment'' (ID i)), d)"
    and "CommentsService_remove d i = (Inl (NotFoundException ''Comment'' (ID i)), d)"
    by (simp_all add: CommentsService_update_def comment_update_def CommentsService_remove_def
        comment_delete_def)
qed

subsection \<open>Answers ordered by creation time\<close>

lemma mset_map_cong: "mset xs = mset ys \<Longrightarrow> mset (map f xs) = mset (map f ys)"
  by simp




subsection \<open>Posts of a category\<close>


subsection \<open>The outcomes of findOne with no row\<close>


subsection \<open>The profile of a user\<close>




lemma profile_userId_apply [simp]: "profile_userId (apply_ProfileData data p) = profile_userId p"
  by (simp add: apply_ProfileData_def)

lemma profile_id_apply [simp]: "profile_id (apply_ProfileData data p) = profile_id p"
  by (simp add: apply_ProfileData_def)








subsection \<open>The bulk insert of join rows\<close>



lemma insert_skipDuplicates_seq:
  "snd (insert_skipDuplicates now data rows s) = s + int (length data)"
proof (induction data arbitrary: rows s)
  case Nil
  then show ?case by simp
next
  case (Cons pc data)
  obtain p c where pc: "pc = (p, c)" by (cases pc)
  show ?case unfolding pc by (simp add: Cons.IH)
qed


lemma map_filter_range_error:
  "List.map_filter range_error xs = [] \<longleftrightarrow> (\<forall>x \<in> set xs. int32 x)"
proof (induction xs)
  case Nil
  show ?case by (simp add: List.map_filter_simps)
next
  case (Cons x xs)
  show ?case
  proof (cases "range_error x")
    case None
    then have "int32 x" by (simp only: range_error_None)
    with None Cons.IH show ?thesis by (simp add: List.map_filter_simps)
  next
    case (Some e)
    then have "\<not> int32 x" using range_error_int32 [of x] by auto
    with Some show ?thesis by (simp add: List.map_filter_simps)
  qed
qed

lemma values_fit:
  "List.map_filter range_error (concat (map (\<lambda>(p, c). [p, c]) data)) = [] \<longleftrightarrow>
     (\<forall>(p, c) \<in> set data. int32 p \<and> int32 c)"
  unfolding map_filter_range_error by auto

lemma createMany_refused:
  assumes "\<not> (\<forall>(p, c) \<in> set data. int32 p \<and> int32 c)"
  shows "\<exists>e. postCategory_createMany_skipDuplicates d now data = (Inl e, d)"
proof -
  from assms have "List.map_filter range_error (concat (map (\<lambda>(p, c). [p, c]) data)) \<noteq> []"
    by (simp only: values_fit not_False_eq_True)
  then obtain e es where
    "List.map_filter range_error (concat (map (\<lambda>(p, c). [p, c]) data)) = e # es"
    by (cases "List.map_filter range_error (concat (map (\<lambda>(p, c). [p, c]) data))") simp_all
  then show ?thesis
    by (simp add: postCategory_createMany_skipDuplicates_def)
qed

lemma createMany_foreign_key:
  assumes "\<forall>(p, c) \<in> set data. int32 p \<and> int32 c"
    and "\<not> list_all (\<lambda>(p, c). post_row d p \<noteq> None \<and> category_row d c \<noteq> None) data"
  shows "postCategory_createMany_skipDuplicates d now data =
     (Inl (PrismaClientKnownRequestError ''P2003''),
      d\<lparr>postCategory_seq := postCategory_seq d + int (length data)\<rparr>)"
proof -
  from assms(1) have "List.map_filter range_error (concat (map (\<lambda>(p, c). [p, c]) data)) = []"
    by (simp only: values_fit)
  with assms(2) show ?thesis
    by (simp add: postCategory_createMany_skipDuplicates_def)
qed

lemma createMany_inserts:
  assumes "\<forall>(p, c) \<in> set data. int32 p \<and> int32 c"
    and "list_all (\<lambda>(p, c). post_row d p \<noteq> None \<and> category_row d c \<noteq> None) data"
  shows "\<exists>rows. postCategory_createMany_skipDuplicates d now data =
     (Inr (length rows - length (postCategories d)),
      d\<lparr>postCategories := rows, postCategory_seq := postCategory_seq d + int (length data)\<rparr>) \<and>
     fst (insert_skipDuplicates now data (postCategories d) (postCategory_seq d)) = rows"
proof -
  from assms(1) have fit: "List.map_filter range_error (concat (map (\<lambda>(p, c). [p, c]) data)) = []"
    by (simp only: values_fit)
  obtain rows s where ins:
    "insert_skipDuplicates now data (postCategories d) (postCategory_seq d) = (rows, s)"
    by (cases "insert_skipDuplicates now data (postCategories d) (postCategory_seq d)")
  with insert_skipDuplicates_seq [of now data "postCategories d" "postCategory_seq d"]
  have "s = postCategory_seq d + int (length data)" by simp
  with fit assms(2) ins show ?thesis
    by (simp add: postCategory_createMany_skipDuplicates_def)
qed

lemma createMany_cases:
  assumes "postCategory_createMany_skipDuplicates d now data = (r, d')"
  obtains
    (refused) e where "\<not> (\<forall>(p, c) \<in> set data. int32 p \<and> int32 c)" "r = Inl e" "d' = d"
  | (foreign_key) "\<forall>(p, c) \<in> set data. int32 p \<and> int32 c"
      "\<not> list_all (\<lambda>(p, c). post_row d p \<noteq> None \<and> category_row d c \<noteq> None) data"
      "r = Inl (PrismaClientKnownRequestError ''P2003'')"
      "d' = d\<lparr>postCategory_seq := postCategory_seq d + int (length data)\<rparr>"
  | (inserts) rows where "\<forall>(p, c) \<in> set data. int32 p \<and> int32 c"
      "list_all (\<lambda>(p, c). post_row d p \<noteq> None \<and> category_row d c \<noteq> None) data"
      "r = Inr (length rows - length (postCategories d))"
      "d' = d\<lparr>postCategories := rows, postCategory_seq := postCategory_seq d + int (length data)\<rparr>"
      "fst (insert_skipDuplicates now data (postCategories d) (postCategory_seq d)) = rows"
proof (cases "\<forall>(p, c) \<in> set data. int32 p \<and> int32 c")
  case False
  with createMany_refused [of data d now] assms refused show ?thesis by auto
next
  case fit: True
  show ?thesis
  proof (cases "list_all (\<lambda>(p, c). post_row d p \<noteq> None \<and> category_row d c \<noteq> None) data")
    case False
    with createMany_foreign_key [OF fit, of d now] assms foreign_key fit show ?thesis by auto
  next
    case True
    with createMany_inserts [OF fit, of d now] assms inserts fit show ?thesis by auto
  qed
qed



lemma createMany_Inl:
  assumes "postCategory_createMany_skipDuplicates d now data = (Inl e, d')"
  shows "postCategories d' = postCategories d"
  using assms by (cases rule: createMany_cases) simp_all



subsection \<open>The runs of addCategories\<close>





subsection \<open>The example store after tagging\<close>







subsection \<open>The first rows of the ranking\<close>

text \<open>
  An answer exists (the stable sort by count, reversed), and the first \<open>m\<close> rows of any
  admissible order are the \<open>m\<close> best: sorted, and no row left out has a higher count.
\<close>

lemma getPopularCategories_ex: "\<exists>r. CategoriesService_getPopularCategories d limit r"
proof -
  have "findMany_returns count_desc (map (\<lambda>c. (c, posts_count d c)) (categories d))
          (rev (sort_key snd (map (\<lambda>c. (c, posts_count d c)) (categories d))))"
    unfolding count_desc_def by (rule findMany_returns_desc_sort)
  then show ?thesis using getPopularCategories_returns by blast
qed

lemma sorted_wrt_take_drop:
  assumes "sorted_wrt R xs" and "y \<in> set (take n xs)" and "x \<in> set (drop n xs)"
  shows "R y x"
proof -
  from assms(1) have "sorted_wrt R (take n xs @ drop n xs)" by simp
  with assms(2,3) show ?thesis unfolding sorted_wrt_append by blast
qed

lemma getPopularCategories_take:
  assumes "findMany_returns count_desc (map (\<lambda>c. (c, posts_count d c)) (categories d)) ordered"
  shows "sorted_wrt (\<lambda>a b. snd b \<le> snd a) (take m ordered)"
    and "length (take m ordered) = min m (length (categories d))"
    and "\<forall>(c, k) \<in> set (take m ordered). c \<in> set (categories d) \<and> k = posts_count d c"
    and "mset (map fst (take m ordered)) \<subseteq># mset (categories d)"
    and "\<forall>c. c \<in># mset (categories d) - mset (map fst (take m ordered)) \<longrightarrow>
           (\<forall>(c', k) \<in> set (take m ordered). posts_count d c \<le> k)"
proof -
  let ?rows = "map (\<lambda>c. (c, posts_count d c)) (categories d)"
  have cd: "count_desc = (\<lambda>a b. snd b \<le> snd a)"
    by (intro ext) (simp add: count_desc_def)
  from assms have m: "mset ordered = mset ?rows" and s: "sorted_wrt (\<lambda>a b. snd b \<le> snd a) ordered"
    by (simp_all add: findMany_returns_def cd)
  from m have set_eq: "set ordered = set ?rows" by (rule mset_eq_setD)
  from m have "length ordered = length ?rows" by (rule mset_eq_length)
  then have len: "length ordered = length (categories d)" by simp
  from m have "mset (map fst ordered) = mset (map fst ?rows)" by (rule mset_map_cong)
  moreover have "map fst (map (\<lambda>c. (c, posts_count d c)) cs) = cs" for cs
    by (induction cs) simp_all
  ultimately have cats: "mset (map fst ordered) = mset (categories d)" by (simp only:)
  have split: "mset (map fst ordered) =
      mset (map fst (take m ordered)) + mset (map fst (drop m ordered))"
    by (metis append_take_drop_id map_append mset_append)
  from s show "sorted_wrt (\<lambda>a b. snd b \<le> snd a) (take m ordered)"
    by (rule sorted_wrt_take)
  from len show "length (take m ordered) = min m (length (categories d))"
    by (simp add: min.commute)
  from set_eq show "\<forall>(c, k) \<in> set (take m ordered). c \<in> set (categories d) \<and> k = posts_count d c"
    by (auto dest!: in_set_takeD)
  from cats split show "mset (map fst (take m ordered)) \<subseteq># mset (categories d)"
    by (metis mset_subset_eq_add_left)
  show "\<forall>c. c \<in># mset (categories d) - mset (map fst (take m ordered)) \<longrightarrow>
           (\<forall>(c', k) \<in> set (take m ordered). posts_count d c \<le> k)"
  proof (intro allI impI)
    fix c
    assume "c \<in># mset (categories d) - mset (map fst (take m ordered))"
    with cats split have "c \<in> set (map fst (drop m ordered))" by simp
    then obtain x where x: "x \<in> set (drop m ordered)" and c: "fst x = c" by auto
    from x have "x \<in> set ordered" by (rule in_set_dropD)
    with set_eq c have k: "snd x = posts_count d c" by auto
    have "posts_count d c \<le> snd y" if "y \<in> set (take m ordered)" for y
      using sorted_wrt_take_drop [OF s that x] k by simp
    then show "\<forall>(c', k) \<in> set (take m ordered). posts_count d c \<le> k" by auto
  qed
qed

lemma blog_counts:
  "map (\<lambda>c. (c, posts_count blog c)) (categories blog) = [(tech, 1), (tutorial, 1)]"
  by (simp add: posts_count_def blog_def blog_rows)

lemma blog_tagged_counts:
  "map (\<lambda>c. (c, posts_count blog_tagged c)) (categories blog_tagged) = [(tech, 1), (tutorial, 2)]"
  by (simp add: posts_count_def blog_tagged_def first_tutorial_def blog_def blog_rows)

lemma prisma_take_first:
  "0 \<le> n \<Longrightarrow> int64 n \<Longrightarrow> prisma_take n xs = Inr (take (nat n) xs)"
  by (simp add: prisma_take_def)

section \<open>The claims\<close>

text \<open>
  C1: what \<^verbatim>\<open>UsersService.create\<close> does with an email that a user already has: the
  client's unique-constraint error \<^verbatim>\<open>P2002\<close> leaves the service as it was thrown, and
  the store is unchanged. \<^verbatim>\<open>CategoriesService.create\<close> catches the same error for a
  name in use and throws the conflict exception in its place.
\<close>

theorem UsersService_create_duplicate_email:
  "UsersService_create blog 90 ''alice@example.com'' (Some ''Alice again'') =
     (Inl (PrismaClientKnownRequestError ''P2002''), blog) \<and>
   CategoriesService_create blog ''Technology'' ''tech-2'' =
     (Inl (ConflictException ''Category with this name or slug already exists''), blog)"
  by (simp add: UsersService_create_def user_create_def CategoriesService_create_def
      category_create_def blog_def blog_rows)

text \<open>
  C2: what \<^verbatim>\<open>update\<close> and \<^verbatim>\<open>remove\<close> of the four services do with the client's
  errors. The users and posts services throw \<^verbatim>\<open>P2025\<close> (no row with the id) and
  \<^verbatim>\<open>P2002\<close> (an email in use) as the client threw them; the categories and comments
  services throw the not-found exception for \<^verbatim>\<open>P2025\<close>.
\<close>

theorem update_remove_untranslated:
  "UsersService_update blog 90 999 None (Some ''Zed'') =
     (Inl (PrismaClientKnownRequestError ''P2025''), blog) \<and>
   UsersService_update blog 90 2 (Some ''alice@example.com'') None =
     (Inl (PrismaClientKnownRequestError ''P2002''), blog) \<and>
   UsersService_remove blog 999 = (Inl (PrismaClientKnownRequestError ''P2025''), blog) \<and>
   PostsService_update blog 90 999 (Some ''T'') None None
     (Inl (PrismaClientKnownRequestError ''P2025''), blog) \<and>
   PostsService_remove blog 999 = (Inl (PrismaClientKnownRequestError ''P2025''), blog) \<and>
   CategoriesService_update blog 999 (Some ''N'') None =
     (Inl (NotFoundException ''Category'' (ID 999)), blog) \<and>
   CategoriesService_remove blog 999 = (Inl (NotFoundException ''Category'' (ID 999)), blog) \<and>
   CommentsService_update blog 90 999 ''edited'' =
     (Inl (NotFoundException ''Comment'' (ID 999)), blog) \<and>
   CommentsService_remove blog 999 = (Inl (NotFoundException ''Comment'' (ID 999)), blog)"
  by (simp add: UsersService_update_def user_update_def UsersService_remove_def user_delete_def
      PostsService_update_def post_update_def PostsService_remove_def post_delete_def
      CategoriesService_update_def category_update_def CategoriesService_remove_def
      category_delete_def CommentsService_update_def comment_update_def
      CommentsService_remove_def comment_delete_def findUnique_defs row_defs where_id_def
      range_error_def int32_def blog_def blog_rows)






text \<open>
  C5, as the claim states it, fails twice on the example store, whose two categories have
  one post each: the query admits the answer with the later-inserted category first, and
  with the limit \<open>-1\<close> it returns one category, which is more than the limit.
\<close>

theorem getPopularCategories_tie_order_counterexample:
  "categories blog = [tech, tutorial] \<and>
   CategoriesService_getPopularCategories blog (Some 2) (Inr [(tutorial, 1), (tech, 1)]) \<and>
   \<not> ties_in_insertion_order blog [(tutorial, 1), (tech, 1)] \<and>
   CategoriesService_getPopularCategories blog (Some (- 1)) (Inr [(tutorial, 1)]) \<and>
   \<not> int (length [(tutorial, 1 :: nat)]) \<le> - 1"
proof -
  have a: "categories blog = [tech, tutorial]"
    by (simp add: blog_def)
  have "findMany_returns count_desc (map (\<lambda>c. (c, posts_count blog c)) (categories blog))
          [(tutorial, 1), (tech, 1)]"
    unfolding blog_counts by (simp add: findMany_returns_def count_desc_def)
  then have "CategoriesService_getPopularCategories blog (Some 2)
      (prisma_take (case Some 2 of None \<Rightarrow> 10 | Some n \<Rightarrow> n) [(tutorial, 1), (tech, 1)])"
    by (rule getPopularCategories_returns)
  then have b: "CategoriesService_getPopularCategories blog (Some 2) (Inr [(tutorial, 1), (tech, 1)])"
    by (simp add: prisma_take_def int64_def)
  have c: "\<not> ties_in_insertion_order blog [(tutorial, 1), (tech, 1)]"
    by (simp add: ties_in_insertion_order_def inserted_before_def a)
  have "findMany_returns count_desc (map (\<lambda>c. (c, posts_count blog c)) (categories blog))
          [(tech, 1), (tutorial, 1)]"
    unfolding blog_counts by (simp add: findMany_returns_def count_desc_def)
  then have "CategoriesService_getPopularCategories blog (Some (- 1))
      (prisma_take (case Some (- 1) of None \<Rightarrow> 10 | Some n \<Rightarrow> n) [(tech, 1), (tutorial, 1)])"
    by (rule getPopularCategories_returns)
  then have e: "CategoriesService_getPopularCategories blog (Some (- 1)) (Inr [(tutorial, 1)])"
    by (simp add: prisma_take_def int64_def)
  from a b c e show ?thesis by simp
qed

text \<open>
  C5, amended: for a limit \<open>n\<close> (10 when none is supplied) that is not negative and
  is below \<open>2\<^sup>6\<^sup>3\<close>, the bound of a number of a query, \<^verbatim>\<open>getPopularCategories\<close> returns,
  and every answer lists categories of the store with their post counts in descending
  order of the count, \<open>min n\<close> (number of categories) of them and so at most \<open>n\<close>, each
  category as often as the table has it at most, and no category left out has more posts
  than one that is listed. The order of categories with equal counts is the engine's
  choice.
\<close>

theorem getPopularCategories_ranked:
  assumes "n = (case limit of None \<Rightarrow> 10 | Some m \<Rightarrow> m)" and "0 \<le> n" and "int64 n"
  shows
    "(\<exists>res. CategoriesService_getPopularCategories d limit (Inr res)) \<and>
     (\<forall>r. CategoriesService_getPopularCategories d limit r \<longrightarrow>
        (\<exists>res. r = Inr res \<and>
           sorted_wrt (\<lambda>a b. snd b \<le> snd a) res \<and>
           int (length res) \<le> n \<and>
           length res = min (nat n) (length (categories d)) \<and>
           (\<forall>(c, k) \<in> set res. c \<in> set (categories d) \<and> k = posts_count d c) \<and>
           mset (map fst res) \<subseteq># mset (categories d) \<and>
           (\<forall>c. c \<in># mset (categories d) - mset (map fst res) \<longrightarrow>
              (\<forall>(c', k) \<in> set res. posts_count d c \<le> k))))"
proof -
  have run: "\<exists>res. r = Inr res \<and>
        sorted_wrt (\<lambda>a b. snd b \<le> snd a) res \<and>
        int (length res) \<le> n \<and>
        length res = min (nat n) (length (categories d)) \<and>
        (\<forall>(c, k) \<in> set res. c \<in> set (categories d) \<and> k = posts_count d c) \<and>
        mset (map fst res) \<subseteq># mset (categories d) \<and>
        (\<forall>c. c \<in># mset (categories d) - mset (map fst res) \<longrightarrow>
           (\<forall>(c', k) \<in> set res. posts_count d c \<le> k))"
    if "CategoriesService_getPopularCategories d limit r" for r
    using that
  proof (cases rule: CategoriesService_getPopularCategories.cases)
    case (getPopularCategories_returns ordered)
    with assms have res: "r = Inr (take (nat n) ordered)"
      by (simp add: prisma_take_first)
    note t = getPopularCategories_take [OF getPopularCategories_returns(2), of "nat n"]
    from t(2) assms(2) have "int (length (take (nat n) ordered)) \<le> n"
      by linarith
    with t res show ?thesis by blast
  qed
  obtain r where r: "CategoriesService_getPopularCategories d limit r"
    using getPopularCategories_ex by blast
  from run [OF r] obtain res where "r = Inr res" by blast
  with r have "\<exists>res. CategoriesService_getPopularCategories d limit (Inr res)" by blast
  with run show ?thesis by blast
qed

theorem getPopularCategories_ranked_witness:
  "map (\<lambda>c. (c, posts_count blog_tagged c)) (categories blog_tagged) = [(tech, 1), (tutorial, 2)] \<and>
   CategoriesService_getPopularCategories blog_tagged None (Inr [(tutorial, 2), (tech, 1)]) \<and>
   \<not> CategoriesService_getPopularCategories blog_tagged None (Inr [(tech, 1), (tutorial, 2)]) \<and>
   CategoriesService_getPopularCategories blog_tagged (Some 1) (Inr [(tutorial, 2)]) \<and>
   \<not> CategoriesService_getPopularCategories blog_tagged (Some 1) (Inr [(tech, 1)]) \<and>
   \<not> CategoriesService_getPopularCategories blog_tagged (Some 1) (Inr [(tutorial, 2), (tech, 1)]) \<and>
   \<not> CategoriesService_getPopularCategories blog_tagged (Some 1) (Inr [(tutorial, 1)]) \<and>
   \<not> CategoriesService_getPopularCategories blog_tagged (Some 1)
       (Inl (PrismaClientKnownRequestError ''P2033''))"
proof -
  have default: "(10 :: int) = (case None of None \<Rightarrow> 10 | Some m \<Rightarrow> m)"
    and given: "(1 :: int) = (case Some 1 of None \<Rightarrow> 10 | Some m \<Rightarrow> m)"
    by simp_all
  have "(0 :: int) \<le> 10" and "int64 10" by (simp_all add: int64_def)
  note none = getPopularCategories_ranked [OF default this, of blog_tagged]
  have "(0 :: int) \<le> 1" and "int64 1" by (simp_all add: int64_def)
  note one = getPopularCategories_ranked [OF given this, of blog_tagged]
  have cats: "categories blog_tagged = [tech, tutorial]"
    by (simp add: blog_tagged_def blog_def)
  have counts: "posts_count blog_tagged tech = 1" "posts_count blog_tagged tutorial = 2"
    using blog_tagged_counts by (simp_all add: cats)
  have ranked: "findMany_returns count_desc
      (map (\<lambda>c. (c, posts_count blog_tagged c)) (categories blog_tagged)) [(tutorial, 2), (tech, 1)]"
    unfolding blog_tagged_counts by (simp add: findMany_returns_def count_desc_def)
  then have "CategoriesService_getPopularCategories blog_tagged None
      (prisma_take (case None of None \<Rightarrow> 10 | Some n \<Rightarrow> n) [(tutorial, 2), (tech, 1)])"
    by (rule getPopularCategories_returns)
  then have a: "CategoriesService_getPopularCategories blog_tagged None (Inr [(tutorial, 2), (tech, 1)])"
    by (simp add: prisma_take_def int64_def)
  have b: "\<not> CategoriesService_getPopularCategories blog_tagged None (Inr [(tech, 1), (tutorial, 2)])"
  proof
    assume "CategoriesService_getPopularCategories blog_tagged None (Inr [(tech, 1), (tutorial, 2)])"
    with none have "sorted_wrt (\<lambda>a b. snd b \<le> snd a) [(tech, 1 :: nat), (tutorial, 2)]"
      by blast
    then show False by simp
  qed
  from ranked have "CategoriesService_getPopularCategories blog_tagged (Some 1)
      (prisma_take (case Some 1 of None \<Rightarrow> 10 | Some n \<Rightarrow> n) [(tutorial, 2), (tech, 1)])"
    by (rule getPopularCategories_returns)
  then have c: "CategoriesService_getPopularCategories blog_tagged (Some 1) (Inr [(tutorial, 2)])"
    by (simp add: prisma_take_def int64_def)
  have e: "\<not> CategoriesService_getPopularCategories blog_tagged (Some 1) (Inr [(tech, 1)])"
  proof
    assume "CategoriesService_getPopularCategories blog_tagged (Some 1) (Inr [(tech, 1)])"
    with one have "\<forall>c. c \<in># mset (categories blog_tagged) - mset (map fst [(tech, 1 :: nat)]) \<longrightarrow>
        (\<forall>(c', k) \<in> set [(tech, 1 :: nat)]. posts_count blog_tagged c \<le> k)"
      by blast
    then have "tutorial \<in># mset [tech, tutorial] - mset [tech] \<longrightarrow>
        posts_count blog_tagged tutorial \<le> 1"
      by (simp add: cats)
    with counts show False by simp
  qed
  have f: "\<not> CategoriesService_getPopularCategories blog_tagged (Some 1) (Inr [(tutorial, 2), (tech, 1)])"
  proof
    assume "CategoriesService_getPopularCategories blog_tagged (Some 1) (Inr [(tutorial, 2), (tech, 1)])"
    with one have "int (length [(tutorial, 2 :: nat), (tech, 1)]) \<le> 1" by blast
    then show False by simp
  qed
  have g: "\<not> CategoriesService_getPopularCategories blog_tagged (Some 1) (Inr [(tutorial, 1)])"
  proof
    assume "CategoriesService_getPopularCategories blog_tagged (Some 1) (Inr [(tutorial, 1)])"
    with one have "\<forall>(c, k) \<in> set [(tutorial, 1 :: nat)].
        c \<in> set (categories blog_tagged) \<and> k = posts_count blog_tagged c"
      by blast
    with counts show False by simp
  qed
  have h: "\<not> CategoriesService_getPopularCategories blog_tagged (Some 1)
       (Inl (PrismaClientKnownRequestError ''P2033''))"
  proof
    assume "CategoriesService_getPopularCategories blog_tagged (Some 1)
       (Inl (PrismaClientKnownRequestError ''P2033''))"
    with one show False by blast
  qed
  from blog_tagged_counts a b c e f g h show ?thesis by simp
qed




text \<open>
  C7: what \<^verbatim>\<open>UsersService.findByEmail\<close> does with an email that no user has: it
  returns null and throws nothing. \<^verbatim>\<open>CategoriesService.findBySlug\<close>, the lookup by the
  other unique text key, throws the not-found exception.
\<close>

theorem UsersService_findByEmail_no_match:
  "UsersService_findByEmail blog ''nobody@example.com'' (Inr None) \<and>
   (\<forall>e. \<not> UsersService_findByEmail blog ''nobody@example.com'' (Inl e)) \<and>
   CategoriesService_findBySlug blog ''nothing''
     (Inl (NotFoundException ''Category'' (Slug ''nothing'')))"
  by (simp add: UsersService_findByEmail_def user_findUnique_email_def
      CategoriesService_findBySlug_def category_findUnique_slug_def blog_def blog_rows)








end
